theory Spec2Isabelle
  imports Main "HOL-Library.AList"
begin

section \<open>Session records and the sessions directory\<close>

text \<open>
  A session file holds the JSON object written by \<open>createSession\<close> and extended by
  \<open>updateSession\<close>. The two timestamps are the instants (milliseconds since the epoch)
  that the ISO strings of the file denote. \<open>controlPort\<close> and \<open>debugPort\<close> are absent
  from the object until an update adds them.
\<close>

record session =
  name :: string
  wsEndpoint :: string
  pid :: nat
  headless :: bool
  created :: int
  lastActivity :: int
  currentUrl :: "string option"
  controlPort :: "nat option"
  debugPort :: "nat option"

text \<open>
  The partial objects passed to \<open>updateSession\<close>: the callers pass
  \<open>{lastActivity}\<close>, \<open>{currentUrl}\<close> and \<open>{controlPort, debugPort}\<close>.
\<close>

record updates =
  upd_lastActivity :: "int option"
  upd_currentUrl :: "string option"
  upd_controlPort :: "nat option"
  upd_debugPort :: "nat option"

definition no_updates :: updates where
  "no_updates = \<lparr>upd_lastActivity = None, upd_currentUrl = None,
                  upd_controlPort = None, upd_debugPort = None\<rparr>"

text \<open>The object spread \<open>{ ...session, ...updates }\<close>: a key of \<open>updates\<close> wins.\<close>

definition spread :: "session \<Rightarrow> updates \<Rightarrow> session" where
  "spread s u = s
     \<lparr>lastActivity := (case upd_lastActivity u of None \<Rightarrow> lastActivity s | Some t \<Rightarrow> t),
      currentUrl := (case upd_currentUrl u of None \<Rightarrow> currentUrl s | Some x \<Rightarrow> Some x),
      controlPort := (case upd_controlPort u of None \<Rightarrow> controlPort s | Some p \<Rightarrow> Some p),
      debugPort := (case upd_debugPort u of None \<Rightarrow> debugPort s | Some p \<Rightarrow> Some p)\<rparr>"

text \<open>
  The content of a file of the sessions directory: the JSON of a session object, or text
  on which \<open>JSON.parse\<close> throws. The file system is a finite table from paths to
  contents, read through \<open>map_of\<close>; its operations are the calls of \<open>fs\<close> that the
  session manager makes. Paths are POSIX paths and compared as they are written. The
  sessions directory itself exists: the constructor of the session manager creates it
  (\<open>ensureSessionsDir\<close>); a write is taken to find the directory of its path and to
  succeed.
\<close>

datatype content = SessionJson session | Unparseable

type_synonym fs = "(string \<times> content) list"

definition existsSync :: "fs \<Rightarrow> string \<Rightarrow> bool" where
  "existsSync f p = (map_of f p \<noteq> None)"

definition readFileSync :: "fs \<Rightarrow> string \<Rightarrow> content option" where
  "readFileSync f p = map_of f p"

definition writeFileSync :: "fs \<Rightarrow> string \<Rightarrow> content \<Rightarrow> fs" where
  "writeFileSync f p c = AList.update p c f"

definition unlinkSync :: "fs \<Rightarrow> string \<Rightarrow> fs" where
  "unlinkSync f p = AList.delete p f"

text \<open>The names of the entries directly inside a directory.\<close>

definition readdirSync :: "fs \<Rightarrow> string \<Rightarrow> string list" where
  "readdirSync f dir =
     [drop (length dir + 1) p. (p, c) \<leftarrow> f, take (length dir + 1) p = dir @ ''/'',
        CHR ''/'' \<notin> set (drop (length dir + 1) p)]"

text \<open>\<open>String.prototype.endsWith\<close>, and \<open>replace\<close> with a string pattern (first occurrence).\<close>

definition endsWith :: "string \<Rightarrow> string \<Rightarrow> bool" where
  "endsWith s suf = (length suf \<le> length s \<and> drop (length s - length suf) s = suf)"

fun replace :: "string \<Rightarrow> string \<Rightarrow> string \<Rightarrow> string" where
  "replace [] pat rep = (if pat = [] then rep else [])"
| "replace (c # cs) pat rep =
     (if take (length pat) (c # cs) = pat then rep @ drop (length pat) (c # cs)
      else c # replace cs pat rep)"

section \<open>Paths\<close>

text \<open>
  \<open>path.join\<close> of Node, for POSIX paths. The arguments that are not empty are put
  together with \<open>/\<close> between them and the result is normalised: the path is cut at
  every \<open>/\<close>, empty segments and \<open>.\<close> are dropped, \<open>..\<close> removes the segment before
  it (or stays, in a relative path with nothing before it), and the segments left are put
  together again. \<open>normalizeStep\<close> treats one segment; its second argument is the list
  of the segments kept so far, the last one first.
\<close>

fun splitSlash :: "string \<Rightarrow> string list" where
  "splitSlash [] = [[]]"
| "splitSlash (c # cs) =
     (if c = CHR ''/'' then [] # splitSlash cs
      else (case splitSlash cs of [] \<Rightarrow> [[c]] | seg # segs \<Rightarrow> (c # seg) # segs))"

fun slashed :: "string list \<Rightarrow> string" where
  "slashed [] = []"
| "slashed [seg] = seg"
| "slashed (seg # seg' # segs) = seg @ ''/'' @ slashed (seg' # segs)"

definition normalizeStep :: "bool \<Rightarrow> string list \<Rightarrow> string \<Rightarrow> string list" where
  "normalizeStep allowAboveRoot res seg =
     (if seg = [] \<or> seg = ''.'' then res
      else if seg = ''..'' then
        (case res of
           [] \<Rightarrow> if allowAboveRoot then [''..''] else []
         | r # rs \<Rightarrow>
             if r \<noteq> ''..'' then rs
             else if allowAboveRoot then ''..'' # res else res)
      else seg # res)"

definition normalizeString :: "string \<Rightarrow> bool \<Rightarrow> string" where
  "normalizeString path allowAboveRoot =
     slashed (rev (foldl (normalizeStep allowAboveRoot) [] (splitSlash path)))"

definition normalize :: "string \<Rightarrow> string" where
  "normalize path =
     (if path = [] then ''.''
      else
        (let isAbsolute = (hd path = CHR ''/'');
             trailingSeparator = (last path = CHR ''/'');
             body = normalizeString path (\<not> isAbsolute)
         in if body = [] then
              (if isAbsolute then ''/'' else if trailingSeparator then ''./'' else ''.'')
            else (if isAbsolute then ''/'' else []) @ body @
                 (if trailingSeparator then ''/'' else [])))"

definition join :: "string list \<Rightarrow> string" where
  "join args =
     (let joined = slashed (filter (\<lambda>arg. arg \<noteq> []) args)
      in if joined = [] then ''.'' else normalize joined)"

section \<open>SessionManager\<close>

text \<open>
  The constructor computes \<open>sessionsDir\<close> from the home directory and makes sure the
  directory exists.
\<close>

record SessionManager =
  sessionsDir :: string

definition new_SessionManager :: "string \<Rightarrow> SessionManager" where
  "new_SessionManager homedir =
     \<lparr>sessionsDir = join [homedir, ''.local'', ''lib'', ''websource-browser'', ''sessions'']\<rparr>"

definition getSessionFile :: "SessionManager \<Rightarrow> string \<Rightarrow> string" where
  "getSessionFile m sessionName = join [sessionsDir m, sessionName @ ''.json'']"

definition sessionExists :: "SessionManager \<Rightarrow> fs \<Rightarrow> string \<Rightarrow> bool" where
  "sessionExists m f sessionName = existsSync f (getSessionFile m sessionName)"

text \<open>
  \<open>createSession\<close> reads the clock twice, for \<open>created\<close> and for \<open>lastActivity\<close>;
  the object it writes has no \<open>controlPort\<close> and no \<open>debugPort\<close>.
\<close>

definition createSession ::
  "SessionManager \<Rightarrow> fs \<Rightarrow> string \<Rightarrow> string \<Rightarrow> nat \<Rightarrow> bool \<Rightarrow> int \<Rightarrow> int \<Rightarrow> session \<times> fs" where
  "createSession m f sessionName endpoint p hl t_created t_activity =
     (let sessionData = \<lparr>name = sessionName, wsEndpoint = endpoint, pid = p, headless = hl,
                          created = t_created, lastActivity = t_activity, currentUrl = None,
                          controlPort = None, debugPort = None\<rparr>
      in (sessionData, writeFileSync f (getSessionFile m sessionName) (SessionJson sessionData)))"

text \<open>\<open>getSession\<close>: \<open>null\<close> for a missing file and for one that does not parse.\<close>

definition getSession :: "SessionManager \<Rightarrow> fs \<Rightarrow> string \<Rightarrow> session option" where
  "getSession m f sessionName =
     (let sessionFile = getSessionFile m sessionName in
      if \<not> existsSync f sessionFile then None
      else (case readFileSync f sessionFile of
              Some (SessionJson s) \<Rightarrow> Some s
            | Some Unparseable \<Rightarrow> None
            | None \<Rightarrow> None))"

definition updateSession :: "SessionManager \<Rightarrow> fs \<Rightarrow> string \<Rightarrow> updates \<Rightarrow> bool \<times> fs" where
  "updateSession m f sessionName u =
     (case getSession m f sessionName of
        None \<Rightarrow> (False, f)
      | Some s \<Rightarrow>
          (let updatedSession = spread s u
           in (True, writeFileSync f (getSessionFile m sessionName) (SessionJson updatedSession))))"

definition updateSessionActivity :: "SessionManager \<Rightarrow> fs \<Rightarrow> string \<Rightarrow> int \<Rightarrow> bool \<times> fs" where
  "updateSessionActivity m f sessionName now =
     updateSession m f sessionName (no_updates\<lparr>upd_lastActivity := Some now\<rparr>)"

definition deleteSession :: "SessionManager \<Rightarrow> fs \<Rightarrow> string \<Rightarrow> bool \<times> fs" where
  "deleteSession m f sessionName =
     (let sessionFile = getSessionFile m sessionName in
      if existsSync f sessionFile then (True, unlinkSync f sessionFile) else (False, f))"

definition listSessions :: "SessionManager \<Rightarrow> fs \<Rightarrow> session list" where
  "listSessions m f =
     concat (map (\<lambda>file.
        if endsWith file ''.json'' then
          (case getSession m f (replace file ''.json'' []) of Some s \<Rightarrow> [s] | None \<Rightarrow> [])
        else [])
      (readdirSync f (sessionsDir m)))"

text \<open>
  The browser as the probe sees it: whether \<open>puppeteer.connect\<close> to an endpoint
  resolves, and whether \<open>disconnect\<close> of the handle then resolves.
\<close>

record puppeteer =
  connect_ok :: "string \<Rightarrow> bool"
  disconnect_ok :: "string \<Rightarrow> bool"

definition isSessionActive :: "puppeteer \<Rightarrow> SessionManager \<Rightarrow> fs \<Rightarrow> string \<Rightarrow> bool \<times> fs" where
  "isSessionActive pp m f sessionName =
     (case getSession m f sessionName of
        None \<Rightarrow> (False, f)
      | Some s \<Rightarrow>
          if connect_ok pp (wsEndpoint s) then
            (if disconnect_ok pp (wsEndpoint s) then (True, f) else (False, f))
          else (False, f))"

subsection \<open>Sequences of store operations\<close>

text \<open>
  One call of a method of the session manager, with its arguments (and, for
  \<open>createSession\<close> and \<open>updateSessionActivity\<close>, the clock readings it takes).
\<close>

datatype store_op =
    Exists string
  | Create string string nat bool int int
  | Get string
  | Update string updates
  | UpdateActivity string int
  | Delete string
  | ListAll
  | IsActive string

definition apply_op :: "puppeteer \<Rightarrow> SessionManager \<Rightarrow> fs \<Rightarrow> store_op \<Rightarrow> fs" where
  "apply_op pp m f op =
     (case op of
        Exists n \<Rightarrow> (let r = sessionExists m f n in f)
      | Create n endpoint p hl t1 t2 \<Rightarrow> snd (createSession m f n endpoint p hl t1 t2)
      | Get n \<Rightarrow> (let r = getSession m f n in f)
      | Update n u \<Rightarrow> snd (updateSession m f n u)
      | UpdateActivity n t \<Rightarrow> snd (updateSessionActivity m f n t)
      | Delete n \<Rightarrow> snd (deleteSession m f n)
      | ListAll \<Rightarrow> (let r = listSessions m f in f)
      | IsActive n \<Rightarrow> snd (isSessionActive pp m f n))"

definition run_ops :: "puppeteer \<Rightarrow> SessionManager \<Rightarrow> fs \<Rightarrow> store_op list \<Rightarrow> fs" where
  "run_ops pp m f ops = foldl (apply_op pp m) f ops"

text \<open>
  The property of section 8 in the words of the specification: some operation of the
  sequence is a create for the name, and no later one is a delete for it.
\<close>

fun is_create :: "string \<Rightarrow> store_op \<Rightarrow> bool" where
  "is_create n (Create n' endpoint p hl t1 t2) = (n' = n)"
| "is_create n other = False"

fun is_delete :: "string \<Rightarrow> store_op \<Rightarrow> bool" where
  "is_delete n (Delete n') = (n' = n)"
| "is_delete n other = False"

definition created_and_not_deleted_since :: "string \<Rightarrow> store_op list \<Rightarrow> bool" where
  "created_and_not_deleted_since n ops =
     (\<exists>i \<in> set [0..<length ops]. is_create n (ops ! i) \<and>
        (\<forall>j \<in> set [Suc i..<length ops]. \<not> is_delete n (ops ! j)))"

text \<open>
  A session name that is a single path component and, with \<open>.json\<close> after it, a file
  name the file system takes: no \<open>/\<close> and no NUL in it, at most 250 bytes. Then an
  operation whose session name (if it has one) is such a name.
\<close>

definition plain_name :: "string \<Rightarrow> bool" where
  "plain_name n = (CHR ''/'' \<notin> set n \<and> CHR 0x00 \<notin> set n \<and> length n \<le> 250)"

fun plain_op :: "store_op \<Rightarrow> bool" where
  "plain_op (Exists n) = plain_name n"
| "plain_op (Create n endpoint p hl t1 t2) = plain_name n"
| "plain_op (Get n) = plain_name n"
| "plain_op (Update n u) = plain_name n"
| "plain_op (UpdateActivity n t) = plain_name n"
| "plain_op (Delete n) = plain_name n"
| "plain_op ListAll = True"
| "plain_op (IsActive n) = plain_name n"

section \<open>SessionDaemon\<close>

text \<open>
  The fields of the daemon object. \<open>browser\<close> holds the endpoint of the connected
  browser, \<open>controlServer\<close> tells whether the control listener is listening,
  \<open>monitorTimer\<close> whether the interval timer is set.
\<close>

record daemon =
  sessionName :: string
  options_headless :: bool
  browser :: "string option"
  daemon_lastActivity :: int
  timeoutMs :: int
  checkInterval :: int
  monitorTimer :: bool
  controlServer :: bool
  daemon_controlPort :: "nat option"

text \<open>The constructor; \<open>now\<close> is its reading of \<open>Date.now()\<close>.\<close>

definition SessionDaemon :: "string \<Rightarrow> bool \<Rightarrow> int \<Rightarrow> daemon" where
  "SessionDaemon n hl now =
     \<lparr>sessionName = n, options_headless = hl, browser = None, daemon_lastActivity = now,
      timeoutMs = 15 * 60 * 1000, checkInterval = 60 * 1000, monitorTimer = False,
      controlServer = False, daemon_controlPort = None\<rparr>"

type_synonym world = "daemon \<times> fs"

subsection \<open>The control server\<close>

text \<open>
  A JavaScript string is a list of UTF-16 code units. \<open>trim\<close> removes the white space
  and line terminators of ECMAScript from both ends.
\<close>

type_synonym jsstring = "nat list"

definition ascii :: "string \<Rightarrow> jsstring" where
  "ascii s = map of_char s"

definition isWhiteSpace :: "nat \<Rightarrow> bool" where
  "isWhiteSpace c =
     (c \<in> {0x09, 0x0A, 0x0B, 0x0C, 0x0D, 0x20, 0xA0, 0x1680, 0x2028, 0x2029, 0x202F,
           0x205F, 0x3000, 0xFEFF} \<or> (0x2000 \<le> c \<and> c \<le> 0x200A))"

definition trim :: "jsstring \<Rightarrow> jsstring" where
  "trim s = rev (dropWhile isWhiteSpace (rev (dropWhile isWhiteSpace s)))"

text \<open>
  What the handler does to the socket. \<open>Pong\<close> is the text \<open>pong\<close> and a newline,
  \<open>StatusJson\<close> the JSON of the status object and a newline. \<open>End\<close> is the daemon
  closing its side of the connection.
\<close>

record status =
  active :: bool
  status_lastActivity :: int
  timeUntilShutdown :: int

datatype socket_write = Pong | StatusJson status

datatype socket_action = Write socket_write | End

text \<open>
  \<open>updateActivity\<close> reads the clock for the field (\<open>now\<close>), and again, inside
  \<open>updateSessionActivity\<close>, for the file (\<open>now_file\<close>).
\<close>

definition updateActivity :: "SessionManager \<Rightarrow> int \<Rightarrow> int \<Rightarrow> world \<Rightarrow> world" where
  "updateActivity m now now_file w =
     (case w of (d, f) \<Rightarrow>
        (d\<lparr>daemon_lastActivity := now\<rparr>,
         snd (updateSessionActivity m f (sessionName d) now_file)))"

text \<open>The listener of the \<open>data\<close> event of an accepted socket.\<close>

definition on_data ::
  "SessionManager \<Rightarrow> int \<Rightarrow> int \<Rightarrow> jsstring \<Rightarrow> world \<Rightarrow> world \<times> socket_action list" where
  "on_data m now now_file data w =
     (let message = trim data in
      if message = ascii ''ping'' then (updateActivity m now now_file w, [Write Pong])
      else if message = ascii ''status'' then
        (let st = \<lparr>active = True, status_lastActivity = daemon_lastActivity (fst w),
                   timeUntilShutdown =
                     max 0 (timeoutMs (fst w) - (now - daemon_lastActivity (fst w)))\<rparr>
         in (w, [Write (StatusJson st)]))
      else (w, []))"

text \<open>
  One accepted connection: the \<open>data\<close> events that arrive on it, each with the clock
  readings of its handler, in order. The result is the world afterwards and everything the
  daemon did to the socket.
\<close>

fun serve_connection ::
  "SessionManager \<Rightarrow> (int \<times> int \<times> jsstring) list \<Rightarrow> world \<Rightarrow> world \<times> socket_action list" where
  "serve_connection m [] w = (w, [])"
| "serve_connection m ((now, now_file, data) # evs) w =
     (case on_data m now now_file data w of
        (w1, out1) \<Rightarrow>
          (case serve_connection m evs w1 of (w2, out2) \<Rightarrow> (w2, out1 @ out2)))"

subsection \<open>Idle monitoring and shutdown\<close>

definition shutdown :: "SessionManager \<Rightarrow> world \<Rightarrow> world" where
  "shutdown m w =
     (case w of (d, f) \<Rightarrow>
        (d\<lparr>monitorTimer := False, controlServer := False, browser := None\<rparr>,
         snd (deleteSession m f (sessionName d))))"

text \<open>
  The callback of the interval timer at clock reading \<open>now\<close>: the flag tells whether
  it called \<open>shutdown\<close>.
\<close>

definition monitor_tick :: "SessionManager \<Rightarrow> int \<Rightarrow> world \<Rightarrow> bool \<times> world" where
  "monitor_tick m now w =
     (let idleTime = now - daemon_lastActivity (fst w) in
      if idleTime > timeoutMs (fst w) then (True, shutdown m w) else (False, w))"

text \<open>
  The timer alone, with no request in between: callbacks at \<open>t\<close>, \<open>t + checkInterval\<close>,
  and so on, until one calls \<open>shutdown\<close>; the result is the time of that callback. The
  first argument bounds the number of callbacks looked at.
\<close>

fun monitor_run :: "SessionManager \<Rightarrow> nat \<Rightarrow> int \<Rightarrow> world \<Rightarrow> (int \<times> world) option" where
  "monitor_run m 0 t w = None"
| "monitor_run m (Suc k) t w =
     (case monitor_tick m t w of
        (True, w') \<Rightarrow> Some (t, w')
      | (False, w') \<Rightarrow> monitor_run m k (t + checkInterval (fst w')) w')"

subsection \<open>Errors\<close>

text \<open>
  The errors thrown by the daemon and by the client, one constructor for each message.
  \<open>FailedToStartDaemon\<close> is the wrapper that \<open>start\<close> and \<open>startSession\<close> put around
  the error caught by their \<open>try\<close> block.
\<close>

datatype start_failure =
    PortUnavailable
  | ExecutablePathFailed
  | SpawnFailed
  | DebuggingEndpointFailed
  | BrowserConnectFailed
  | ControlListenFailed
  | DaemonStartTimeout

datatype error =
    FailedToStartDaemon string start_failure
  | AlreadyActive string
  | SessionDoesNotExist string
  | NoControlPort string
  | DaemonPingTimeout
  | SocketError
  | NoLongerActive string
  | FailedToConnect string

text \<open>
  How \<open>start\<close> ends when it does not return: it throws the wrapped error, or an
  \<open>error\<close> event that no listener handles ends the process.
\<close>

datatype abort = Throws error | UnhandledErrorEvent start_failure

subsection \<open>Daemon startup\<close>

text \<open>
  What the environment answers to the steps of \<open>start\<close>: the random offset of the
  debugging port, the port found by \<open>findAvailablePort\<close> (or the failure of its
  \<open>listen\<close>), whether \<open>puppeteer.executablePath\<close> returns, whether the spawned
  Chrome starts, the \<open>webSocketDebuggerUrl\<close> fetched from Chrome (or the failure of the
  fetch), whether \<open>puppeteer.connect\<close> and the \<open>listen\<close> of the control server
  succeed, the process id, and the two clock readings of \<open>createSession\<close>.

  The callbacks given to \<open>listen\<close> are listeners of \<open>listening\<close> and never get an
  error, and the spawned child has no \<open>error\<close> listener: a failing \<open>listen\<close> (of
  \<open>findAvailablePort\<close> or of the control server) and a failing \<open>spawn\<close> emit an
  \<open>error\<close> event that nothing handles, which ends the process. The other failures are
  thrown inside the \<open>try\<close> and thrown again wrapped.
\<close>

record start_env =
  random100 :: nat
  findAvailablePort_result :: "nat option"
  executablePath_ok :: bool
  spawn_ok :: bool
  webSocketDebuggerUrl :: "string option"
  puppeteer_connect_ok :: bool
  listen_ok :: bool
  process_pid :: nat
  clock_created :: int
  clock_activity :: int

record start_result =
  res_controlPort :: nat
  res_debugPort :: nat
  res_wsEndpoint :: string

text \<open>
  \<open>start\<close> returns its result and the history of the world: the state before, and
  the state after each statement that changes a field of the daemon or the file system.
\<close>

definition start ::
  "SessionManager \<Rightarrow> start_env \<Rightarrow> world \<Rightarrow> (abort + start_result) \<times> world list" where
  "start m env w0 =
     (case w0 of (d0, f0) \<Rightarrow>
      let failed = (\<lambda>cause. Inl (Throws (FailedToStartDaemon (sessionName d0) cause)));
          crashed = (\<lambda>cause. Inl (UnhandledErrorEvent cause));
          dbgPort = 9220 + random100 env
      in
      case findAvailablePort_result env of
        None \<Rightarrow> (crashed PortUnavailable, [(d0, f0)])
      | Some port \<Rightarrow>
        let d1 = d0\<lparr>daemon_controlPort := Some port\<rparr> in
        if \<not> executablePath_ok env then (failed ExecutablePathFailed, [(d0, f0), (d1, f0)])
        else if \<not> spawn_ok env then (crashed SpawnFailed, [(d0, f0), (d1, f0)])
        else
          case webSocketDebuggerUrl env of
            None \<Rightarrow> (failed DebuggingEndpointFailed, [(d0, f0), (d1, f0)])
          | Some endpoint \<Rightarrow>
            if \<not> puppeteer_connect_ok env then
              (failed BrowserConnectFailed, [(d0, f0), (d1, f0)])
            else
              let d2 = d1\<lparr>browser := Some endpoint\<rparr> in
              if \<not> listen_ok env then
                (crashed ControlListenFailed, [(d0, f0), (d1, f0), (d2, f0)])
              else
                let d3 = d2\<lparr>controlServer := True\<rparr>;
                    d4 = d3\<lparr>monitorTimer := True\<rparr>;
                    f1 = snd (createSession m f0 (sessionName d4) endpoint (process_pid env)
                                (options_headless d4) (clock_created env) (clock_activity env));
                    f2 = snd (updateSession m f1 (sessionName d4)
                                (no_updates\<lparr>upd_controlPort := Some port,
                                            upd_debugPort := Some dbgPort\<rparr>))
                in (Inr \<lparr>res_controlPort = port, res_debugPort = dbgPort,
                          res_wsEndpoint = endpoint\<rparr>,
                    [(d0, f0), (d1, f0), (d2, f0), (d3, f0), (d4, f0), (d4, f1), (d4, f2)]))"

section \<open>WebSourceBrowser: the client\<close>

text \<open>
  The fields of the client that session resolution sets: the endpoint of the browser it is
  attached to, whether it holds a page, and the session record it resolved.
\<close>

record client =
  client_browser :: "string option"
  page :: bool
  currentSession :: "session option"

text \<open>
  What the environment answers to the client: the probe of the browser, the outcome of the
  exchange on the control port (\<open>pong\<close> received, nothing within 5 seconds, or a socket
  error), whether the client's own \<open>puppeteer.connect\<close> resolves, whether it then gets
  a page (\<open>pages\<close>, \<open>newPage\<close>), whether \<open>spawn\<close> of the daemon returns, and the
  file system as the client finds it at each poll.
\<close>

datatype ping_outcome = PongReceived | NoPongWithin5s | SocketFailed

record client_env =
  probe :: puppeteer
  ping :: "nat \<Rightarrow> ping_outcome"
  attach_connect_ok :: bool
  attach_page_ok :: bool
  spawn_daemon_ok :: bool
  observed :: "nat \<Rightarrow> fs"

text \<open>The truthiness of \<open>session.controlPort\<close>: present and not zero.\<close>

definition truthy_port :: "nat option \<Rightarrow> bool" where
  "truthy_port p = (case p of None \<Rightarrow> False | Some n \<Rightarrow> n \<noteq> 0)"

definition pingDaemon :: "client_env \<Rightarrow> SessionManager \<Rightarrow> fs \<Rightarrow> string \<Rightarrow> error + unit" where
  "pingDaemon env m f n =
     (case getSession m f n of
        None \<Rightarrow> Inl (NoControlPort n)
      | Some s \<Rightarrow>
          if \<not> truthy_port (controlPort s) then Inl (NoControlPort n)
          else (case ping env (the (controlPort s)) of
                  PongReceived \<Rightarrow> Inr ()
                | NoPongWithin5s \<Rightarrow> Inl DaemonPingTimeout
                | SocketFailed \<Rightarrow> Inl SocketError))"

definition connectToSession ::
  "client_env \<Rightarrow> SessionManager \<Rightarrow> client \<times> fs \<Rightarrow> string \<Rightarrow> (error + bool) \<times> (client \<times> fs)" where
  "connectToSession env m cw n =
     (case cw of (c, f) \<Rightarrow>
      case getSession m f n of
        None \<Rightarrow> (Inl (SessionDoesNotExist n), (c, f))
      | Some s \<Rightarrow>
          (case pingDaemon env m f n of
             Inl e \<Rightarrow> (Inl e, (c, f))
           | Inr u \<Rightarrow>
               (case isSessionActive (probe env) m f n of
                  (isActive, f1) \<Rightarrow>
                    if \<not> isActive then (Inl (NoLongerActive n), (c, snd (deleteSession m f1 n)))
                    else if \<not> attach_connect_ok env then
                      (Inl (FailedToConnect n), (c, snd (deleteSession m f1 n)))
                    else if \<not> attach_page_ok env then
                      (Inl (FailedToConnect n),
                       (c\<lparr>client_browser := Some (wsEndpoint s)\<rparr>,
                        snd (deleteSession m f1 n)))
                    else
                      (Inr True, (c\<lparr>client_browser := Some (wsEndpoint s), page := True,
                                    currentSession := Some s\<rparr>, f1)))))"

subsection \<open>startSession\<close>

text \<open>The environment given to the spawned process.\<close>

record spawn_request =
  WEBSOURCE_BROWSER_DAEMON :: bool
  WEBSOURCE_BROWSER_SESSION_NAME :: string
  WEBSOURCE_BROWSER_HEADLESS :: bool

record start_ok =
  ok_sessionName :: string
  ok_pid :: nat
  ok_controlPort :: nat

definition maxAttempts :: nat where
  "maxAttempts = 60"

text \<open>
  The polling loop, from the value of \<open>attempts\<close> on: each round sleeps 1000 ms and
  then looks at the file system. The result is the record found ready (or nothing, when
  the loop ends) and the number of rounds slept.
\<close>

function poll :: "client_env \<Rightarrow> SessionManager \<Rightarrow> string \<Rightarrow> nat \<Rightarrow> session option \<times> nat" where
  "poll env m n attempts =
     (if attempts < maxAttempts then
        (let f = observed env attempts in
         if sessionExists m f n then
           (case getSession m f n of
              Some s \<Rightarrow>
                if truthy_port (controlPort s) then (Some s, attempts + 1)
                else poll env m n (attempts + 1)
            | None \<Rightarrow> poll env m n (attempts + 1))
         else poll env m n (attempts + 1))
      else (None, attempts))"
  by pat_completeness auto
termination
  by (relation "measure (\<lambda>(env, m, n, attempts). maxAttempts - attempts)") auto

declare poll.simps [simp del]

text \<open>
  The outcome of \<open>startSession\<close>: what it returns or throws, the file system as the
  client's own calls left it, the processes it spawned, and the milliseconds it slept.
\<close>

record start_run =
  outcome :: "error + start_ok"
  files :: fs
  spawned :: "spawn_request list"
  slept_ms :: nat

definition spawn_and_poll ::
  "client_env \<Rightarrow> SessionManager \<Rightarrow> fs \<Rightarrow> string \<Rightarrow> bool \<Rightarrow> start_run" where
  "spawn_and_poll env m f n hl =
     (if \<not> spawn_daemon_ok env then
        \<lparr>outcome = Inl (FailedToStartDaemon n SpawnFailed), files = f, spawned = [],
         slept_ms = 0\<rparr>
      else
        (let request = \<lparr>WEBSOURCE_BROWSER_DAEMON = True, WEBSOURCE_BROWSER_SESSION_NAME = n,
                        WEBSOURCE_BROWSER_HEADLESS = hl\<rparr>
         in case poll env m n 0 of
              (Some s, rounds) \<Rightarrow>
                \<lparr>outcome = Inr \<lparr>ok_sessionName = n, ok_pid = pid s,
                                 ok_controlPort = the (controlPort s)\<rparr>,
                 files = f, spawned = [request], slept_ms = 1000 * rounds\<rparr>
            | (None, rounds) \<Rightarrow>
                \<lparr>outcome = Inl (FailedToStartDaemon n DaemonStartTimeout), files = f,
                 spawned = [request], slept_ms = 1000 * rounds\<rparr>))"

definition startSession ::
  "client_env \<Rightarrow> SessionManager \<Rightarrow> fs \<Rightarrow> string \<Rightarrow> bool \<Rightarrow> start_run" where
  "startSession env m f n hl =
     (if sessionExists m f n then
        (case isSessionActive (probe env) m f n of
           (isActive, f1) \<Rightarrow>
             if isActive then
               \<lparr>outcome = Inl (AlreadyActive n), files = f1, spawned = [], slept_ms = 0\<rparr>
             else spawn_and_poll env m (snd (deleteSession m f1 n)) n hl)
      else spawn_and_poll env m f n hl)"

text \<open>A request that the control server answers: after trimming, \<open>ping\<close> or \<open>status\<close>.\<close>

definition recognised :: "jsstring \<Rightarrow> bool" where
  "recognised data = (trim data = ascii ''ping'' \<or> trim data = ascii ''status'')"

text \<open>
  What the \<open>k\<close>-th look of the polling loop finds: the record of the name, readable and
  with a truthy \<open>controlPort\<close>.
\<close>

definition ready :: "client_env \<Rightarrow> SessionManager \<Rightarrow> string \<Rightarrow> nat \<Rightarrow> bool" where
  "ready env m n k =
     (case getSession m (observed env k) n of
        Some s \<Rightarrow> truthy_port (controlPort s)
      | None \<Rightarrow> False)"

section \<open>Concrete inputs\<close>

definition example_manager :: SessionManager where
  "example_manager = \<lparr>sessionsDir = ''/home/user/.local/lib/websource-browser/sessions''\<rparr>"

definition example_session :: session where
  "example_session =
     \<lparr>name = ''default'', wsEndpoint = ''ws://127.0.0.1:9222/devtools/browser/b1'',
      pid = 4242, headless = True, created = 1000, lastActivity = 1000, currentUrl = None,
      controlPort = Some 9320, debugPort = Some 9222\<rparr>"

definition example_fs :: fs where
  "example_fs = [(getSessionFile example_manager ''default'', SessionJson example_session)]"

definition example_daemon :: daemon where
  "example_daemon = SessionDaemon ''default'' True 0"

definition live_browser :: puppeteer where
  "live_browser = \<lparr>connect_ok = (\<lambda>endpoint. True), disconnect_ok = (\<lambda>endpoint. True)\<rparr>"

definition dead_browser :: puppeteer where
  "dead_browser = \<lparr>connect_ok = (\<lambda>endpoint. False), disconnect_ok = (\<lambda>endpoint. True)\<rparr>"

text \<open>A client whose daemon and browser answer, and one whose daemon is gone.\<close>

definition live_env :: client_env where
  "live_env = \<lparr>probe = live_browser, ping = (\<lambda>port. PongReceived),
                attach_connect_ok = True, attach_page_ok = True,
                spawn_daemon_ok = True, observed = (\<lambda>k. example_fs)\<rparr>"

definition dead_env :: client_env where
  "dead_env = \<lparr>probe = dead_browser, ping = (\<lambda>port. SocketFailed),
                attach_connect_ok = False, attach_page_ok = False,
                spawn_daemon_ok = True, observed = (\<lambda>k. [])\<rparr>"

definition new_client :: client where
  "new_client = \<lparr>client_browser = None, page = False, currentSession = None\<rparr>"

text \<open>
  A client that starts a session in an empty directory: its first look finds nothing, its
  second the record as \<open>createSession\<close> writes it, its third the completed record.
\<close>

definition created_session :: session where
  "created_session = example_session\<lparr>controlPort := None, debugPort := None\<rparr>"

definition starting_env :: client_env where
  "starting_env =
     \<lparr>probe = live_browser, ping = (\<lambda>port. PongReceived),
      attach_connect_ok = True, attach_page_ok = True, spawn_daemon_ok = True,
      observed = (\<lambda>k. if k = 0 then []
                       else if k = 1 then
                         [(getSessionFile example_manager ''default'', SessionJson created_session)]
                       else example_fs)\<rparr>"

text \<open>A startup in which every step succeeds.\<close>

definition ok_start_env :: start_env where
  "ok_start_env =
     \<lparr>random100 = 2, findAvailablePort_result = Some 9320, executablePath_ok = True,
      spawn_ok = True,
      webSocketDebuggerUrl = Some ''ws://127.0.0.1:9222/devtools/browser/b1'',
      puppeteer_connect_ok = True, listen_ok = True, process_pid = 4242,
      clock_created = 1000, clock_activity = 1000\<rparr>"

section \<open>Facts about paths\<close>


lemma splitSlash_nonempty: "splitSlash s \<noteq> []"
  by (induction s) (auto split: list.splits)

lemma splitSlash_plain: "CHR ''/'' \<notin> set s \<Longrightarrow> splitSlash s = [s]"
  by (induction s) auto

lemma splitSlash_append:
  "splitSlash (a @ CHR ''/'' # b) = splitSlash a @ splitSlash b"
proof (induction a)
  case Nil
  then show ?case by simp
next
  case (Cons c a)
  obtain seg segs where s: "splitSlash a = seg # segs"
    using splitSlash_nonempty [of a] by (cases "splitSlash a") auto
  with Cons show ?case by simp
qed

lemma slashed_snoc:
  "slashed (rs @ [x]) = (if rs = [] then x else slashed rs @ ''/'' @ x)"
  by (induction rs rule: slashed.induct) auto

lemma json_segment:
  "n @ ''.json'' \<noteq> []" "n @ ''.json'' \<noteq> ''.''" "n @ ''.json'' \<noteq> ''..''"
proof -
  have "length (n @ ''.json'') \<ge> 5" by simp
  then show "n @ ''.json'' \<noteq> []" "n @ ''.json'' \<noteq> ''.''" "n @ ''.json'' \<noteq> ''..''"
    by (auto simp del: length_append dest!: arg_cong [where f = length])
qed

lemma normalizeStep_json: "normalizeStep a res (n @ ''.json'') = (n @ ''.json'') # res"
  using json_segment [of n] by (simp add: normalizeStep_def)

lemma getSessionFile_plain:
  "\<exists>b. \<forall>n. plain_name n \<longrightarrow> getSessionFile m n = b @ n @ ''.json''"
proof (cases "sessionsDir m = []")
  case True
  have "getSessionFile m n = [] @ n @ ''.json''" if p: "plain_name n" for n
  proof -
    let ?x = "n @ ''.json''"
    have x: "CHR ''/'' \<notin> set ?x" using p by (simp add: plain_name_def)
    have h: "hd ?x \<noteq> CHR ''/''" using x by (cases n) auto
    have l: "last ?x \<noteq> CHR ''/''" by simp
    have b: "normalizeString ?x True = ?x"
      by (simp add: normalizeString_def splitSlash_plain [OF x] normalizeStep_json)
    have "normalize ?x = ?x"
      unfolding normalize_def using h l b json_segment(1) [of n]
      by (simp add: Let_def)
    then show ?thesis using True json_segment(1) [of n]
      by (simp add: getSessionFile_def join_def Let_def)
  qed
  then show ?thesis by blast
next
  case False
  define dir where "dir = sessionsDir m"
  define isAbs where "isAbs = (hd dir = CHR ''/'')"
  define R where "R = foldl (normalizeStep (\<not> isAbs)) [] (splitSlash dir)"
  define b where "b = (if isAbs then ''/'' else []) @ (if R = [] then [] else slashed (rev R) @ ''/'')"
  have d: "dir \<noteq> []" using False by (simp add: dir_def)
  have "getSessionFile m n = b @ n @ ''.json''" if p: "plain_name n" for n
  proof -
    let ?x = "n @ ''.json''"
    let ?j = "dir @ CHR ''/'' # ?x"
    have x: "CHR ''/'' \<notin> set ?x" using p by (simp add: plain_name_def)
    have j: "slashed (filter (\<lambda>arg. arg \<noteq> []) [sessionsDir m, ?x]) = ?j"
      using d json_segment(1) [of n] by (simp add: dir_def)
    have h: "hd ?j = hd dir" using d by simp
    have l: "last ?j \<noteq> CHR ''/''" by simp
    have sp: "splitSlash ?j = splitSlash dir @ [?x]"
      by (simp add: splitSlash_append splitSlash_plain [OF x])
    have body: "normalizeString ?j (\<not> isAbs) =
                  (if R = [] then ?x else slashed (rev R) @ ''/'' @ ?x)"
      by (simp add: normalizeString_def sp normalizeStep_json R_def slashed_snoc)
    then have ne: "normalizeString ?j (\<not> isAbs) \<noteq> []"
      using json_segment(1) [of n] by auto
    have "normalize ?j = b @ ?x"
      unfolding normalize_def using h l body ne
      by (simp add: Let_def isAbs_def [symmetric] b_def)
    then show ?thesis
      unfolding getSessionFile_def join_def j by (simp add: Let_def)
  qed
  then show ?thesis by blast
qed

lemma getSessionFile_plain_inj:
  assumes "plain_name n" and "plain_name n'"
  shows "getSessionFile m n = getSessionFile m n' \<longleftrightarrow> n = n'"
proof -
  from getSessionFile_plain [of m] obtain b where
    b: "\<forall>n. plain_name n \<longrightarrow> getSessionFile m n = b @ n @ ''.json''" by blast
  with assms show ?thesis by auto
qed

section \<open>Facts about the session manager\<close>

lemma getSession_None_iff:
  "getSession m f n = None \<longleftrightarrow>
     (map_of f (getSessionFile m n) = None \<or> map_of f (getSessionFile m n) = Some Unparseable)"
  by (auto simp: getSession_def existsSync_def readFileSync_def Let_def
      split: option.splits content.splits)

lemma getSession_Some_iff:
  "getSession m f n = Some s \<longleftrightarrow> map_of f (getSessionFile m n) = Some (SessionJson s)"
  by (auto simp: getSession_def existsSync_def readFileSync_def Let_def
      split: option.splits content.splits)

lemma isSessionActive_snd: "snd (isSessionActive pp m f n) = f"
  by (simp add: isSessionActive_def split: option.splits)

lemma isSessionActive_fst:
  "fst (isSessionActive pp m f n) \<longleftrightarrow>
     (\<exists>s. getSession m f n = Some s \<and> connect_ok pp (wsEndpoint s) \<and>
          disconnect_ok pp (wsEndpoint s))"
  by (simp add: isSessionActive_def split: option.splits)

lemma example_getSession: "getSession example_manager example_fs ''default'' = Some example_session"
  by (simp add: getSession_Some_iff example_fs_def)

lemma example_sessionExists: "sessionExists example_manager example_fs ''default''"
  by (simp add: sessionExists_def existsSync_def example_fs_def)

text \<open>
  C10. When the file of a session is missing, or is there but does not parse,
  \<open>updateSession\<close> and \<open>updateSessionActivity\<close> return \<open>false\<close> and leave the file
  system as it was: no file is created, none is rewritten.
\<close>

theorem updateSession_absent_unchanged:
  assumes "\<not> sessionExists m f n \<or> readFileSync f (getSessionFile m n) = Some Unparseable"
  shows "updateSession m f n u = (False, f) \<and> updateSessionActivity m f n t = (False, f)"
proof -
  from assms have "getSession m f n = None"
    by (auto simp: getSession_None_iff sessionExists_def existsSync_def readFileSync_def)
  then show ?thesis
    by (simp add: updateSession_def updateSessionActivity_def)
qed

theorem updateSession_absent_unchanged_witness:
  "\<not> sessionExists example_manager [] ''default'' \<and>
   updateSession example_manager [] ''default'' (no_updates\<lparr>upd_currentUrl := Some ''about:blank''\<rparr>)
     = (False, []) \<and>
   updateSessionActivity example_manager [] ''default'' 5000 = (False, []) \<and>
   readFileSync [(getSessionFile example_manager ''default'', Unparseable)]
     (getSessionFile example_manager ''default'') = Some Unparseable \<and>
   updateSessionActivity example_manager
     [(getSessionFile example_manager ''default'', Unparseable)] ''default'' 5000
     = (False, [(getSessionFile example_manager ''default'', Unparseable)])"
  using updateSession_absent_unchanged [of example_manager "[]" "''default''"
      "no_updates\<lparr>upd_currentUrl := Some ''about:blank''\<rparr>" 5000]
    updateSession_absent_unchanged [of example_manager
      "[(getSessionFile example_manager ''default'', Unparseable)]"
      "''default''" no_updates 5000]
  by (simp add: sessionExists_def existsSync_def readFileSync_def)

text \<open>
  C8. The liveness probe \<open>isSessionActive\<close> returns \<open>true\<close> exactly when the record of
  the name can be read and the probe of its stored endpoint (connect, then disconnect)
  succeeds; a missing or unreadable record and every failure of the probe give \<open>false\<close>.
  The file system after the probe is the file system before it.
\<close>

theorem isSessionActive_probe_only:
  "snd (isSessionActive pp m f n) = f \<and>
   (fst (isSessionActive pp m f n) \<longleftrightarrow>
      (\<exists>s. getSession m f n = Some s \<and> connect_ok pp (wsEndpoint s) \<and>
           disconnect_ok pp (wsEndpoint s)))"
  by (simp add: isSessionActive_def split: option.splits)

text \<open>
  C4. When the file of the session exists and the liveness probe succeeds,
  \<open>startSession\<close> throws the error "already exists and is active", spawns no process,
  sleeps in no polling round and leaves the file system as it was.
\<close>

theorem startSession_already_active:
  assumes "sessionExists m f n" and "fst (isSessionActive (probe env) m f n)"
  shows "startSession env m f n hl =
           \<lparr>outcome = Inl (AlreadyActive n), files = f, spawned = [], slept_ms = 0\<rparr>"
proof -
  obtain b f1 where p: "isSessionActive (probe env) m f n = (b, f1)"
    by (cases "isSessionActive (probe env) m f n")
  from p isSessionActive_snd [of "probe env" m f n] have "f1 = f" by simp
  moreover from p assms(2) have b by simp
  ultimately show ?thesis using assms(1) p by (simp add: startSession_def)
qed

theorem startSession_already_active_witness:
  "sessionExists example_manager example_fs ''default'' \<and>
   fst (isSessionActive (probe live_env) example_manager example_fs ''default'') \<and>
   startSession live_env example_manager example_fs ''default'' True =
     \<lparr>outcome = Inl (AlreadyActive ''default''), files = example_fs, spawned = [],
      slept_ms = 0\<rparr>"
proof -
  have a: "sessionExists example_manager example_fs ''default''"
    by (rule example_sessionExists)
  have b: "fst (isSessionActive (probe live_env) example_manager example_fs ''default'')"
    by (simp add: isSessionActive_fst example_getSession live_env_def live_browser_def)
  from a b startSession_already_active [OF a b, of True] show ?thesis by simp
qed

section \<open>Facts about the control server\<close>

lemma on_data_ping:
  "trim data = ascii ''ping'' \<Longrightarrow>
     on_data m now now_file data (d, f) =
       ((d\<lparr>daemon_lastActivity := now\<rparr>,
         snd (updateSessionActivity m f (sessionName d) now_file)), [Write Pong])"
  by (simp add: on_data_def updateActivity_def Let_def)

lemma on_data_no_End: "End \<notin> set (snd (on_data m now now_file data w))"
  by (simp add: on_data_def Let_def)

lemma on_data_length:
  "length (snd (on_data m now now_file data w)) = (if recognised data then 1 else 0)"
  by (simp add: on_data_def Let_def recognised_def)

lemma trim_ping_line: "trim (ascii ''ping'' @ [10]) = ascii ''ping''"
  by (simp add: ascii_def trim_def isWhiteSpace_def)

lemma trim_status_line: "trim (ascii ''status'' @ [10]) = ascii ''status''"
  by (simp add: ascii_def trim_def isWhiteSpace_def)

lemma trim_stop_line: "trim (ascii ''stop'' @ [10]) = ascii ''stop''"
  by (simp add: ascii_def trim_def isWhiteSpace_def)

text \<open>
  C5. A request whose text, trimmed, is \<open>ping\<close> is answered with exactly \<open>pong\<close> and
  sets \<open>lastActivity\<close> to the clock reading of the handler (and refreshes the file
  through \<open>updateSessionActivity\<close>). A request \<open>status\<close> is answered with the object
  \<open>{active: true, lastActivity, timeUntilShutdown}\<close>, where \<open>timeUntilShutdown\<close> is
  what is left of \<open>timeoutMs\<close> (15 minutes, set by the constructor), never below zero,
  and changes nothing. Any other request is not answered and changes nothing.
\<close>

theorem control_request_response:
  "(trim data = ascii ''ping'' \<longrightarrow>
      on_data m now now_file data (d, f) =
        ((d\<lparr>daemon_lastActivity := now\<rparr>,
          snd (updateSessionActivity m f (sessionName d) now_file)), [Write Pong])) \<and>
   (trim data = ascii ''status'' \<longrightarrow>
      on_data m now now_file data (d, f) =
        ((d, f),
         [Write (StatusJson \<lparr>active = True, status_lastActivity = daemon_lastActivity d,
            timeUntilShutdown = max 0 (timeoutMs d - (now - daemon_lastActivity d))\<rparr>)]) \<and>
      0 \<le> max 0 (timeoutMs d - (now - daemon_lastActivity d))) \<and>
   (trim data \<noteq> ascii ''ping'' \<and> trim data \<noteq> ascii ''status'' \<longrightarrow>
      on_data m now now_file data (d, f) = ((d, f), [])) \<and>
   timeoutMs (SessionDaemon n hl t0) = 15 * 60 * 1000"
  by (simp add: on_data_def updateActivity_def ascii_def Let_def SessionDaemon_def)

theorem control_request_response_witness:
  "trim (ascii ''ping'' @ [10]) = ascii ''ping'' \<and>
   on_data example_manager 600000 600001 (ascii ''ping'' @ [10]) (example_daemon, example_fs) =
     ((example_daemon\<lparr>daemon_lastActivity := 600000\<rparr>,
       [(getSessionFile example_manager ''default'',
         SessionJson (example_session\<lparr>lastActivity := 600001\<rparr>))]), [Write Pong]) \<and>
   trim (ascii ''status'' @ [10]) = ascii ''status'' \<and>
   on_data example_manager 600000 600001 (ascii ''status'' @ [10]) (example_daemon, example_fs) =
     ((example_daemon, example_fs),
      [Write (StatusJson \<lparr>active = True, status_lastActivity = 0,
                           timeUntilShutdown = 300000\<rparr>)]) \<and>
   trim (ascii ''stop'' @ [10]) \<noteq> ascii ''ping'' \<and>
   trim (ascii ''stop'' @ [10]) \<noteq> ascii ''status'' \<and>
   on_data example_manager 600000 600001 (ascii ''stop'' @ [10]) (example_daemon, example_fs) =
     ((example_daemon, example_fs), [])"
proof -
  have u: "snd (updateSessionActivity example_manager example_fs ''default'' 600001) =
             [(getSessionFile example_manager ''default'',
               SessionJson (example_session\<lparr>lastActivity := 600001\<rparr>))]"
    unfolding updateSessionActivity_def updateSession_def example_getSession
    by (simp add: spread_def no_updates_def writeFileSync_def example_fs_def)
  have n: "sessionName example_daemon = ''default''"
    and l: "daemon_lastActivity example_daemon = 0"
    and t: "timeoutMs example_daemon = 900000"
    by (simp_all add: example_daemon_def SessionDaemon_def)
  have s: "trim (ascii ''stop'' @ [10]) \<noteq> ascii ''ping'' \<and>
           trim (ascii ''stop'' @ [10]) \<noteq> ascii ''status''"
    by (simp add: trim_stop_line) (simp add: ascii_def)
  from control_request_response
         [of "ascii ''ping'' @ [10]" example_manager 600000 600001 example_daemon example_fs]
       control_request_response
         [of "ascii ''status'' @ [10]" example_manager 600000 600001 example_daemon example_fs]
       control_request_response
         [of "ascii ''stop'' @ [10]" example_manager 600000 600001 example_daemon example_fs]
       s
  show ?thesis
    by (simp add: trim_ping_line trim_status_line u n l t)
qed

lemma serve_connection_no_End: "End \<notin> set (snd (serve_connection m evs w))"
proof (induction evs arbitrary: w)
  case Nil
  then show ?case by simp
next
  case (Cons ev evs)
  obtain now now_file data where ev: "ev = (now, now_file, data)"
    by (cases ev)
  obtain w1 out1 where o: "on_data m now now_file data w = (w1, out1)"
    by (cases "on_data m now now_file data w")
  obtain w2 out2 where s: "serve_connection m evs w1 = (w2, out2)"
    by (cases "serve_connection m evs w1")
  from on_data_no_End [of m now now_file data w] o have "End \<notin> set out1" by simp
  moreover from Cons.IH [of w1] s have "End \<notin> set out2" by simp
  ultimately show ?case using ev o s by simp
qed

lemma serve_connection_length:
  "length (snd (serve_connection m evs w)) =
     length (filter (\<lambda>ev. recognised (snd (snd ev))) evs)"
proof (induction evs arbitrary: w)
  case Nil
  then show ?case by simp
next
  case (Cons ev evs)
  obtain now now_file data where ev: "ev = (now, now_file, data)"
    by (cases ev)
  obtain w1 out1 where o: "on_data m now now_file data w = (w1, out1)"
    by (cases "on_data m now now_file data w")
  obtain w2 out2 where s: "serve_connection m evs w1 = (w2, out2)"
    by (cases "serve_connection m evs w1")
  from on_data_length [of m now now_file data w] o
  have "length out1 = (if recognised data then 1 else 0)" by simp
  moreover from Cons.IH [of w1] s
  have "length out2 = length (filter (\<lambda>ev. recognised (snd (snd ev))) evs)" by simp
  ultimately show ?case using ev o s by simp
qed

text \<open>
  C7, as the claim states it, fails: two \<open>ping\<close> lines sent on one connection, at
  clock readings 10 and 20, are both answered, and the daemon does not close the
  connection.
\<close>

theorem second_request_served_counterexample:
  "snd (serve_connection example_manager
          [(10, 10, ascii ''ping'' @ [10]), (20, 20, ascii ''ping'' @ [10])]
          (example_daemon, example_fs)) = [Write Pong, Write Pong]"
  by (simp add: on_data_ping trim_ping_line split: prod.splits)

text \<open>
  C7, amended. The daemon handles every \<open>data\<close> event of an accepted connection on its
  own: it writes one response for each event that is a \<open>ping\<close> or a \<open>status\<close> request
  and none for any other, however many events arrive on the connection, and it never
  closes the connection itself.
\<close>

theorem connection_answers_every_request:
  "length (snd (serve_connection m evs w)) =
     length (filter (\<lambda>ev. recognised (snd (snd ev))) evs) \<and>
   End \<notin> set (snd (serve_connection m evs w))"
  by (simp add: serve_connection_length serve_connection_no_End)

theorem connection_answers_every_request_witness:
  "length (snd (serve_connection example_manager
                  [(10, 10, ascii ''ping'' @ [10]), (20, 20, ascii ''stop'' @ [10]),
                   (30, 30, ascii ''status'' @ [10])]
                  (example_daemon, example_fs))) = 2 \<and>
   End \<notin> set (snd (serve_connection example_manager
                  [(10, 10, ascii ''ping'' @ [10]), (20, 20, ascii ''stop'' @ [10]),
                   (30, 30, ascii ''status'' @ [10])]
                  (example_daemon, example_fs)))"
proof -
  have "\<not> recognised (ascii ''stop'' @ [10])"
    unfolding recognised_def trim_stop_line by (simp add: ascii_def)
  then show ?thesis
    using connection_answers_every_request [of example_manager
        "[(10, 10, ascii ''ping'' @ [10]), (20, 20, ascii ''stop'' @ [10]),
          (30, 30, ascii ''status'' @ [10])]" "(example_daemon, example_fs)"]
    by (simp add: recognised_def trim_ping_line trim_status_line)
qed

section \<open>Facts about the idle monitor\<close>

lemma div_step:
  fixes a i :: int
  assumes "0 < i"
  shows "(a + i) div i = a div i + 1"
  using assms by (simp add: div_add_self2)

lemma monitor_run_fires:
  assumes "0 < checkInterval (fst w)"
    and "t \<le> daemon_lastActivity (fst w) + timeoutMs (fst w) + checkInterval (fst w)"
    and "nat ((daemon_lastActivity (fst w) + timeoutMs (fst w) + checkInterval (fst w) - t) div checkInterval (fst w)) < k"
  shows "\<exists>t'. monitor_run m k t w = Some (t', shutdown m w) \<and>
              daemon_lastActivity (fst w) + timeoutMs (fst w) < t' \<and>
              t' \<le> daemon_lastActivity (fst w) + timeoutMs (fst w) + checkInterval (fst w)"
  using assms
proof (induction k arbitrary: t)
  case 0
  then show ?case by simp
next
  case (Suc k)
  define D where "D = daemon_lastActivity (fst w) + timeoutMs (fst w)"
  define I where "I = checkInterval (fst w)"
  have I: "0 < I" using Suc.prems(1) by (simp add: I_def)
  show ?case
  proof (cases "t > D")
    case True
    then have "monitor_tick m t w = (True, shutdown m w)"
      by (simp add: monitor_tick_def Let_def D_def)
    with True Suc.prems(2) show ?thesis by (simp add: D_def)
  next
    case False
    then have mt: "monitor_tick m t w = (False, w)"
      by (simp add: monitor_tick_def Let_def D_def)
    have le: "t + I \<le> D + I" using False by simp
    have "(D - t + I) div I = (D - t) div I + 1"
      using I by (rule div_step)
    moreover have e1: "D + I - t = D - t + I" and e2: "D + I - (t + I) = D - t" by simp_all
    moreover have "0 \<le> (D - t) div I"
      using False I by (simp add: pos_imp_zdiv_nonneg_iff)
    moreover have "nat ((D + I - t) div I) < Suc k"
      using Suc.prems(3) by (simp add: D_def I_def)
    ultimately have "nat ((D - t) div I) < k"
      unfolding e1 by linarith
    then have "nat ((D + I - (t + I)) div I) < k"
      unfolding e2 .
    then have k: "nat ((daemon_lastActivity (fst w) + timeoutMs (fst w) + checkInterval (fst w) - (t + checkInterval (fst w))) div checkInterval (fst w)) < k"
      by (simp add: D_def I_def)
    have le': "t + checkInterval (fst w) \<le> daemon_lastActivity (fst w) + timeoutMs (fst w) + checkInterval (fst w)"
      using le by (simp add: D_def I_def)
    from Suc.IH[OF Suc.prems(1) le' k] mt show ?thesis by simp
  qed
qed

lemma monitor_run_deadline:
  assumes "timeoutMs d = 15 * 60 * 1000" and "checkInterval d = 60 * 1000"
    and "daemon_lastActivity d = T0"
    and "t1 \<le> T0 + 15 * 60 * 1000 + 60 * 1000"
    and "nat ((T0 + 15 * 60 * 1000 + 60 * 1000 - t1) div (60 * 1000)) < k"
  shows "\<exists>t. monitor_run m k t1 (d, f) = Some (t, shutdown m (d, f)) \<and>
             T0 + 15 * 60 * 1000 < t \<and> t \<le> T0 + 15 * 60 * 1000 + 60 * 1000"
  using monitor_run_fires [of "(d, f)" t1 k m] assms by simp

text \<open>
  C2. Take a daemon with the timeout and the check interval of the constructor
  (15 minutes, 60 seconds), whose timer calls back at \<open>t1\<close>, \<open>t1 + 60s\<close>, and so on.
  Idle timeout: with \<open>lastActivity = T0\<close>, no request in between, and the first callback
  not later than one interval after \<open>T0 + 15min\<close>, some callback calls \<open>shutdown\<close>,
  at a time after \<open>T0 + 15min\<close> and at most 60 seconds after it; no earlier callback
  does. Keepalive: a \<open>ping\<close> handled at clock reading \<open>T\<close> sets \<open>lastActivity\<close> to
  \<open>T\<close>, and the callbacks that follow call \<open>shutdown\<close> after \<open>T + 15min\<close>, at most
  60 seconds after it.
\<close>

theorem idle_timeout_and_keepalive:
  assumes "timeoutMs d = 15 * 60 * 1000" and "checkInterval d = 60 * 1000"
  shows
    "(daemon_lastActivity d = T0 \<and> t1 \<le> T0 + 15 * 60 * 1000 + 60 * 1000 \<and>
      nat ((T0 + 15 * 60 * 1000 + 60 * 1000 - t1) div (60 * 1000)) < k \<longrightarrow>
        (\<exists>t. monitor_run m k t1 (d, f) = Some (t, shutdown m (d, f)) \<and>
             T0 + 15 * 60 * 1000 < t \<and> t \<le> T0 + 15 * 60 * 1000 + 60 * 1000)) \<and>
     (trim data = ascii ''ping'' \<and> t2 \<le> T + 15 * 60 * 1000 + 60 * 1000 \<and>
      nat ((T + 15 * 60 * 1000 + 60 * 1000 - t2) div (60 * 1000)) < k' \<longrightarrow>
        daemon_lastActivity (fst (fst (on_data m T T' data (d, f)))) = T \<and>
        (\<exists>t. monitor_run m k' t2 (fst (on_data m T T' data (d, f))) =
               Some (t, shutdown m (fst (on_data m T T' data (d, f)))) \<and>
             T + 15 * 60 * 1000 < t \<and> t \<le> T + 15 * 60 * 1000 + 60 * 1000))"
proof (intro conjI impI)
  assume "daemon_lastActivity d = T0 \<and> t1 \<le> T0 + 15 * 60 * 1000 + 60 * 1000 \<and>
      nat ((T0 + 15 * 60 * 1000 + 60 * 1000 - t1) div (60 * 1000)) < k"
  with assms show "\<exists>t. monitor_run m k t1 (d, f) = Some (t, shutdown m (d, f)) \<and>
             T0 + 15 * 60 * 1000 < t \<and> t \<le> T0 + 15 * 60 * 1000 + 60 * 1000"
    using monitor_run_deadline [of d T0 t1 k m f] by blast
next
  assume a: "trim data = ascii ''ping'' \<and> t2 \<le> T + 15 * 60 * 1000 + 60 * 1000 \<and>
      nat ((T + 15 * 60 * 1000 + 60 * 1000 - t2) div (60 * 1000)) < k'"
  then have w: "fst (on_data m T T' data (d, f)) =
      (d\<lparr>daemon_lastActivity := T\<rparr>, snd (updateSessionActivity m f (sessionName d) T'))"
    by (simp add: on_data_ping)
  show "daemon_lastActivity (fst (fst (on_data m T T' data (d, f)))) = T"
    by (simp add: w)
  have "\<exists>t. monitor_run m k' t2
              (d\<lparr>daemon_lastActivity := T\<rparr>, snd (updateSessionActivity m f (sessionName d) T')) =
            Some (t, shutdown m
              (d\<lparr>daemon_lastActivity := T\<rparr>, snd (updateSessionActivity m f (sessionName d) T'))) \<and>
          T + 15 * 60 * 1000 < t \<and> t \<le> T + 15 * 60 * 1000 + 60 * 1000"
    using a assms
    by (intro monitor_run_deadline) simp_all
  then show "\<exists>t. monitor_run m k' t2 (fst (on_data m T T' data (d, f))) =
               Some (t, shutdown m (fst (on_data m T T' data (d, f)))) \<and>
             T + 15 * 60 * 1000 < t \<and> t \<le> T + 15 * 60 * 1000 + 60 * 1000"
    by (simp add: w)
qed

theorem idle_timeout_and_keepalive_witness:
  "timeoutMs example_daemon = 15 * 60 * 1000 \<and> checkInterval example_daemon = 60 * 1000 \<and>
   daemon_lastActivity example_daemon = 0 \<and>
   (\<exists>t. monitor_run example_manager 16 60000 (example_daemon, example_fs) =
          Some (t, shutdown example_manager (example_daemon, example_fs)) \<and>
        900000 < t \<and> t \<le> 960000) \<and>
   trim (ascii ''ping'' @ [10]) = ascii ''ping'' \<and>
   (\<exists>t. monitor_run example_manager 16 900000
          (fst (on_data example_manager 840000 840000 (ascii ''ping'' @ [10])
                 (example_daemon, example_fs))) =
          Some (t, shutdown example_manager
                 (fst (on_data example_manager 840000 840000 (ascii ''ping'' @ [10])
                        (example_daemon, example_fs)))) \<and>
        1740000 < t \<and> t \<le> 1800000)"
proof -
  have a: "timeoutMs example_daemon = 15 * 60 * 1000"
    and b: "checkInterval example_daemon = 60 * 1000"
    and c: "daemon_lastActivity example_daemon = 0"
    by (simp_all add: example_daemon_def SessionDaemon_def)
  from idle_timeout_and_keepalive [OF a b, of 0 60000 16 example_manager example_fs
         "ascii ''ping'' @ [10]" 900000 840000 16 840000]
  show ?thesis
    by (simp add: a b c trim_ping_line)
qed

section \<open>Facts about sequences of store operations\<close>

lemma sessionExists_updateSession:
  "sessionExists m (snd (updateSession m f n' u)) n = sessionExists m f n"
proof (cases "getSession m f n'")
  case None
  then show ?thesis by (simp add: updateSession_def)
next
  case (Some s)
  then have "map_of f (getSessionFile m n') \<noteq> None"
    by (simp add: getSession_Some_iff)
  with Some show ?thesis
    by (auto simp: updateSession_def sessionExists_def existsSync_def writeFileSync_def
        update_conv' Let_def)
qed

lemma sessionExists_apply_op:
  assumes "plain_name n" and "plain_op op"
  shows "sessionExists m (apply_op pp m f op) n =
     (if is_create n op then True else if is_delete n op then False else sessionExists m f n)"
proof (cases op)
  case (Create n' endpoint p hl t1 t2)
  with assms have "getSessionFile m n' = getSessionFile m n \<longleftrightarrow> n' = n"
    and "getSessionFile m n = getSessionFile m n' \<longleftrightarrow> n = n'"
    by (simp_all add: getSessionFile_plain_inj)
  with Create show ?thesis
    by (auto simp: apply_op_def createSession_def sessionExists_def existsSync_def
        writeFileSync_def update_conv' Let_def)
next
  case (Update n' u)
  then show ?thesis
    by (simp add: apply_op_def sessionExists_updateSession)
next
  case (UpdateActivity n' t)
  then show ?thesis
    by (simp add: apply_op_def updateSessionActivity_def sessionExists_updateSession)
next
  case (Delete n')
  with assms have "getSessionFile m n' = getSessionFile m n \<longleftrightarrow> n' = n"
    and "getSessionFile m n = getSessionFile m n' \<longleftrightarrow> n = n'"
    by (simp_all add: getSessionFile_plain_inj)
  with Delete show ?thesis
    by (auto simp: apply_op_def deleteSession_def sessionExists_def existsSync_def
        unlinkSync_def delete_conv' Let_def)
next
  case (IsActive n')
  then show ?thesis
    by (simp add: apply_op_def isSessionActive_snd)
qed (simp_all add: apply_op_def)

lemma created_alt:
  "created_and_not_deleted_since n ops \<longleftrightarrow>
     (\<exists>i<length ops. is_create n (ops ! i) \<and>
        (\<forall>j. i < j \<and> j < length ops \<longrightarrow> \<not> is_delete n (ops ! j)))"
  unfolding created_and_not_deleted_since_def
  by (auto simp: Suc_le_eq)

lemma created_snoc:
  "created_and_not_deleted_since n (ops @ [op]) =
     (if is_create n op then True else if is_delete n op then False
      else created_and_not_deleted_since n ops)"
proof (cases "is_create n op")
  case True
  have "length ops < length (ops @ [op])" by simp
  moreover have "is_create n ((ops @ [op]) ! length ops)" using True by simp
  moreover have "\<forall>j. length ops < j \<and> j < length (ops @ [op]) \<longrightarrow> \<not> is_delete n ((ops @ [op]) ! j)"
    by auto
  ultimately have "created_and_not_deleted_since n (ops @ [op])"
    unfolding created_alt by blast
  with True show ?thesis by simp
next
  case nc: False
  show ?thesis
  proof (cases "is_delete n op")
    case True
    have "\<not> created_and_not_deleted_since n (ops @ [op])"
    proof
      assume "created_and_not_deleted_since n (ops @ [op])"
      then obtain i where i: "i < length (ops @ [op])" and cr: "is_create n ((ops @ [op]) ! i)"
        and nd: "\<forall>j. i < j \<and> j < length (ops @ [op]) \<longrightarrow> \<not> is_delete n ((ops @ [op]) ! j)"
        unfolding created_alt by blast
      from cr nc have "i \<noteq> length ops" by (auto simp: nth_append)
      with i have "i < length ops" by simp
      then have "i < length ops \<and> length ops < length (ops @ [op])" by simp
      with nd have "\<not> is_delete n ((ops @ [op]) ! length ops)" by blast
      with True show False by simp
    qed
    with nc True show ?thesis by simp
  next
    case nd: False
    have "created_and_not_deleted_since n (ops @ [op]) = created_and_not_deleted_since n ops"
    proof
      assume "created_and_not_deleted_since n (ops @ [op])"
      then obtain i where i: "i < length (ops @ [op])" and cr: "is_create n ((ops @ [op]) ! i)"
        and nd': "\<forall>j. i < j \<and> j < length (ops @ [op]) \<longrightarrow> \<not> is_delete n ((ops @ [op]) ! j)"
        unfolding created_alt by blast
      from cr nc have "i \<noteq> length ops" by (auto simp: nth_append)
      with i have il: "i < length ops" by simp
      with cr have c: "is_create n (ops ! i)" by (simp add: nth_append)
      have "\<forall>j. i < j \<and> j < length ops \<longrightarrow> \<not> is_delete n (ops ! j)"
      proof (intro allI impI)
        fix j assume j: "i < j \<and> j < length ops"
        then have "i < j \<and> j < length (ops @ [op])" by simp
        with nd' have "\<not> is_delete n ((ops @ [op]) ! j)" by blast
        with j show "\<not> is_delete n (ops ! j)" by (simp add: nth_append)
      qed
      with il c show "created_and_not_deleted_since n ops"
        unfolding created_alt by blast
    next
      assume "created_and_not_deleted_since n ops"
      then obtain i where il: "i < length ops" and c: "is_create n (ops ! i)"
        and nd': "\<forall>j. i < j \<and> j < length ops \<longrightarrow> \<not> is_delete n (ops ! j)"
        unfolding created_alt by blast
      have "\<forall>j. i < j \<and> j < length (ops @ [op]) \<longrightarrow> \<not> is_delete n ((ops @ [op]) ! j)"
      proof (intro allI impI)
        fix j assume j: "i < j \<and> j < length (ops @ [op])"
        show "\<not> is_delete n ((ops @ [op]) ! j)"
        proof (cases "j = length ops")
          case True
          then show ?thesis using nd by simp
        next
          case False
          with j have jl: "j < length ops" by simp
          with j have "i < j \<and> j < length ops" by simp
          with nd' have "\<not> is_delete n (ops ! j)" by blast
          with jl show ?thesis by (simp add: nth_append)
        qed
      qed
      moreover from il have "i < length (ops @ [op])" by simp
      moreover from il c have "is_create n ((ops @ [op]) ! i)" by (simp add: nth_append)
      ultimately show "created_and_not_deleted_since n (ops @ [op])"
        unfolding created_alt by blast
    qed
    with nc nd show ?thesis by simp
  qed
qed

text \<open>
  C9, as the claim states it, fails. \<open>getSessionFile\<close> normalises the path, so the
  names \<open>./b\<close> and \<open>b\<close> have the same file: after one \<open>createSession\<close> for
  \<open>./b\<close> in the empty sessions directory, \<open>sessionExists\<close> of \<open>b\<close> is true, although
  no create for \<open>b\<close> has executed.
\<close>

theorem sessionExists_other_name_counterexample:
  "sessionExists example_manager
     (run_ops live_browser example_manager []
        [Create ''./b'' ''ws://127.0.0.1:9222/y'' 2 True 5 5]) ''b'' \<and>
   \<not> created_and_not_deleted_since ''b'' [Create ''./b'' ''ws://127.0.0.1:9222/y'' 2 True 5 5]"
  by code_simp

text \<open>
  C9, amended. Take session names that are single path components (no \<open>/\<close> and
  no NUL in them, at most 250 bytes).
  Start from the empty sessions directory and run any sequence of calls of the session
  manager (\<open>sessionExists\<close>, \<open>createSession\<close>, \<open>getSession\<close>, \<open>updateSession\<close>,
  \<open>updateSessionActivity\<close>, \<open>deleteSession\<close>, \<open>listSessions\<close>,
  \<open>isSessionActive\<close>) on such names. Afterwards \<open>sessionExists\<close> of such a name is
  true exactly when some call of the sequence created that name and no later call deleted
  it.
\<close>

theorem sessionExists_iff_created_and_not_deleted_plain:
  assumes "plain_name n" and "list_all plain_op ops"
  shows "sessionExists m (run_ops pp m [] ops) n = created_and_not_deleted_since n ops"
  using assms(2)
proof (induction ops rule: rev_induct)
  case Nil
  then show ?case
    by (simp add: run_ops_def sessionExists_def existsSync_def
        created_and_not_deleted_since_def)
next
  case (snoc op ops)
  then have "plain_op op" and "list_all plain_op ops" by simp_all
  with snoc.IH assms(1) show ?case
    by (simp add: run_ops_def sessionExists_apply_op created_snoc)
qed

theorem sessionExists_iff_created_and_not_deleted_plain_witness:
  "plain_name ''a'' \<and> plain_name ''b'' \<and>
   list_all plain_op
     [Create ''a'' ''ws://127.0.0.1:9221/x'' 1 True 0 0, Update ''b'' no_updates,
      Delete ''b'', ListAll, Create ''b'' ''ws://127.0.0.1:9222/y'' 2 True 5 5,
      Delete ''a'', Exists ''a''] \<and>
   sessionExists example_manager
     (run_ops live_browser example_manager []
        [Create ''a'' ''ws://127.0.0.1:9221/x'' 1 True 0 0, Update ''b'' no_updates,
         Delete ''b'', ListAll, Create ''b'' ''ws://127.0.0.1:9222/y'' 2 True 5 5,
         Delete ''a'', Exists ''a'']) ''b'' \<and>
   \<not> sessionExists example_manager
     (run_ops live_browser example_manager []
        [Create ''a'' ''ws://127.0.0.1:9221/x'' 1 True 0 0, Update ''b'' no_updates,
         Delete ''b'', ListAll, Create ''b'' ''ws://127.0.0.1:9222/y'' 2 True 5 5,
         Delete ''a'', Exists ''a'']) ''a''"
proof -
  have a: "plain_name ''a''" and b: "plain_name ''b''"
    by (simp_all add: plain_name_def)
  have l: "list_all plain_op
     [Create ''a'' ''ws://127.0.0.1:9221/x'' 1 True 0 0, Update ''b'' no_updates,
      Delete ''b'', ListAll, Create ''b'' ''ws://127.0.0.1:9222/y'' 2 True 5 5,
      Delete ''a'', Exists ''a'']"
    by (simp add: plain_name_def)
  from a b l
    sessionExists_iff_created_and_not_deleted_plain [OF b l, of example_manager live_browser]
    sessionExists_iff_created_and_not_deleted_plain [OF a l, of example_manager live_browser]
  show ?thesis
    by (simp add: created_and_not_deleted_since_def)
qed

section \<open>Facts about the polling loop of startSession\<close>


lemma getSession_Some_exists: "getSession m f n = Some s \<Longrightarrow> sessionExists m f n"
  by (simp add: getSession_Some_iff sessionExists_def existsSync_def)

lemma poll_step:
  assumes "a < maxAttempts"
  shows "poll env m n a =
           (if ready env m n a then (getSession m (observed env a) n, a + 1)
            else poll env m n (a + 1))"
proof (cases "getSession m (observed env a) n")
  case None
  then show ?thesis using assms
    by (subst poll.simps) (simp add: ready_def Let_def)
next
  case (Some s)
  then show ?thesis using assms getSession_Some_exists [OF Some]
    by (subst poll.simps) (simp add: ready_def Let_def)
qed

lemma poll_end: "poll env m n maxAttempts = (None, maxAttempts)"
  by (subst poll.simps) simp

lemma poll_never_ready:
  assumes "a \<le> maxAttempts" and "\<forall>k. a \<le> k \<and> k < maxAttempts \<longrightarrow> \<not> ready env m n k"
  shows "poll env m n a = (None, maxAttempts)"
  using assms
proof (induction "maxAttempts - a" arbitrary: a)
  case 0
  then have "a = maxAttempts" by simp
  then show ?case by (simp add: poll_end)
next
  case (Suc d)
  then have lt: "a < maxAttempts" by simp
  with Suc.prems(2) have "\<not> ready env m n a" by simp
  moreover have "poll env m n (a + 1) = (None, maxAttempts)"
    using Suc.hyps(1) [of "a + 1"] Suc.hyps(2) Suc.prems(2) lt by simp
  ultimately show ?case using poll_step [OF lt] by simp
qed

lemma poll_first_ready:
  assumes "a \<le> k" and "k < maxAttempts" and "ready env m n k"
    and "\<forall>j. a \<le> j \<and> j < k \<longrightarrow> \<not> ready env m n j"
  shows "poll env m n a = (getSession m (observed env k) n, k + 1)"
  using assms
proof (induction "k - a" arbitrary: a)
  case 0
  then have "a = k" by simp
  with 0 show ?case using poll_step [of k env m n] by simp
next
  case (Suc d)
  then have lt: "a < k" by simp
  with Suc.prems have nr: "\<not> ready env m n a" by simp
  have "poll env m n (a + 1) = (getSession m (observed env k) n, k + 1)"
    using Suc.hyps(1) [of "a + 1"] Suc.hyps(2) Suc.prems lt by simp
  moreover have "a < maxAttempts" using lt Suc.prems(2) by simp
  ultimately show ?case using poll_step [of a env m n] nr by simp
qed

lemma poll_rounds: "a \<le> maxAttempts \<Longrightarrow> snd (poll env m n a) \<le> maxAttempts"
proof (induction "maxAttempts - a" arbitrary: a)
  case 0
  then have "a = maxAttempts" by simp
  then show ?case by (simp add: poll_end)
next
  case (Suc d)
  then have lt: "a < maxAttempts" by simp
  have "snd (poll env m n (a + 1)) \<le> maxAttempts"
    using Suc.hyps(1) [of "a + 1"] Suc.hyps(2) lt by simp
  then show ?case using poll_step [OF lt, of env m n] lt by simp
qed

lemma startSession_spawned:
  assumes "spawned (startSession env m f n hl) \<noteq> []"
  shows "spawn_daemon_ok env \<and> (\<exists>f'. startSession env m f n hl = spawn_and_poll env m f' n hl)"
proof -
  have s: "\<And>f'. spawned (spawn_and_poll env m f' n hl) \<noteq> [] \<Longrightarrow> spawn_daemon_ok env"
    by (auto simp: spawn_and_poll_def split: if_splits)
  show ?thesis
  proof (cases "sessionExists m f n")
    case False
    with assms s show ?thesis by (auto simp: startSession_def)
  next
    case True
    obtain b f1 where p: "isSessionActive (probe env) m f n = (b, f1)"
      by (cases "isSessionActive (probe env) m f n")
    show ?thesis
    proof (cases b)
      case True
      with \<open>sessionExists m f n\<close> p assms show ?thesis by (simp add: startSession_def)
    next
      case False
      with \<open>sessionExists m f n\<close> p assms s show ?thesis by (auto simp: startSession_def)
    qed
  qed
qed

lemma spawn_and_poll_spawned:
  "spawn_daemon_ok env \<Longrightarrow>
     spawned (spawn_and_poll env m f n hl) =
       [\<lparr>WEBSOURCE_BROWSER_DAEMON = True, WEBSOURCE_BROWSER_SESSION_NAME = n,
         WEBSOURCE_BROWSER_HEADLESS = hl\<rparr>]"
  by (simp add: spawn_and_poll_def Let_def split: prod.splits option.splits)

text \<open>
  C6. A call of \<open>startSession\<close> that spawns a daemon spawns exactly one, then looks for
  the record once after each sleep of 1000 ms, at most 60 times. If no look finds a
  readable record with a truthy \<open>controlPort\<close>, it throws the error "Daemon failed to start
  within timeout period" after 60 sleeps, also when an incomplete record is there. If the
  \<open>k\<close>-th look is the first to find one, it returns that record's \<open>pid\<close> and
  \<open>controlPort\<close> after \<open>k + 1\<close> sleeps.
\<close>

theorem startSession_poll_bounded:
  assumes "spawned (startSession env m f n hl) \<noteq> []"
  shows "spawned (startSession env m f n hl) =
           [\<lparr>WEBSOURCE_BROWSER_DAEMON = True, WEBSOURCE_BROWSER_SESSION_NAME = n,
             WEBSOURCE_BROWSER_HEADLESS = hl\<rparr>] \<and>
         slept_ms (startSession env m f n hl) \<le> 60 * 1000 \<and>
         ((\<forall>k<60. \<not> ready env m n k) \<longrightarrow>
            outcome (startSession env m f n hl) = Inl (FailedToStartDaemon n DaemonStartTimeout) \<and>
            slept_ms (startSession env m f n hl) = 60 * 1000) \<and>
         (k < 60 \<and> ready env m n k \<and> (\<forall>j<k. \<not> ready env m n j) \<longrightarrow>
            (\<exists>s. getSession m (observed env k) n = Some s \<and> truthy_port (controlPort s) \<and>
                 outcome (startSession env m f n hl) =
                   Inr \<lparr>ok_sessionName = n, ok_pid = pid s, ok_controlPort = the (controlPort s)\<rparr>) \<and>
            slept_ms (startSession env m f n hl) = 1000 * (k + 1))"
proof -
  from startSession_spawned [OF assms] obtain f' where ok: "spawn_daemon_ok env"
    and eq: "startSession env m f n hl = spawn_and_poll env m f' n hl" by blast
  have 1: "spawned (spawn_and_poll env m f' n hl) =
           [\<lparr>WEBSOURCE_BROWSER_DAEMON = True, WEBSOURCE_BROWSER_SESSION_NAME = n,
             WEBSOURCE_BROWSER_HEADLESS = hl\<rparr>]"
    using ok by (simp add: spawn_and_poll_def Let_def split: prod.splits option.splits)
  have 2: "slept_ms (spawn_and_poll env m f' n hl) \<le> 60 * 1000"
  proof -
    obtain r rounds where p: "poll env m n 0 = (r, rounds)"
      by (cases "poll env m n 0")
    have "snd (poll env m n 0) \<le> maxAttempts" by (rule poll_rounds) simp
    with p have "rounds \<le> 60" by (simp add: maxAttempts_def)
    with p ok show ?thesis
      by (cases r) (simp_all add: spawn_and_poll_def)
  qed
  have 3: "outcome (spawn_and_poll env m f' n hl) = Inl (FailedToStartDaemon n DaemonStartTimeout) \<and>
            slept_ms (spawn_and_poll env m f' n hl) = 60 * 1000"
    if "\<forall>k<60. \<not> ready env m n k"
  proof -
    have "poll env m n 0 = (None, maxAttempts)"
      using that by (intro poll_never_ready) (simp_all add: maxAttempts_def)
    then show ?thesis using ok by (simp add: spawn_and_poll_def maxAttempts_def)
  qed
  have 4: "(\<exists>s. getSession m (observed env k) n = Some s \<and> truthy_port (controlPort s) \<and>
                 outcome (spawn_and_poll env m f' n hl) =
                   Inr \<lparr>ok_sessionName = n, ok_pid = pid s, ok_controlPort = the (controlPort s)\<rparr>) \<and>
            slept_ms (spawn_and_poll env m f' n hl) = 1000 * (k + 1)"
    if "k < 60" and "ready env m n k" and "\<forall>j<k. \<not> ready env m n j"
  proof -
    have p: "poll env m n 0 = (getSession m (observed env k) n, k + 1)"
      using that by (intro poll_first_ready) (simp_all add: maxAttempts_def)
    from that(2) obtain s where s: "getSession m (observed env k) n = Some s"
      and t: "truthy_port (controlPort s)"
      by (auto simp: ready_def split: option.splits)
    with p ok show ?thesis by (simp add: spawn_and_poll_def)
  qed
  from 1 2 3 4 show ?thesis unfolding eq by blast
qed

theorem startSession_poll_bounded_witness:
  "spawned (startSession starting_env example_manager [] ''default'' True) \<noteq> [] \<and>
   outcome (startSession starting_env example_manager [] ''default'' True) =
     Inr \<lparr>ok_sessionName = ''default'', ok_pid = 4242, ok_controlPort = 9320\<rparr> \<and>
   slept_ms (startSession starting_env example_manager [] ''default'' True) = 3000 \<and>
   spawned (startSession dead_env example_manager [] ''default'' True) \<noteq> [] \<and>
   outcome (startSession dead_env example_manager [] ''default'' True) =
     Inl (FailedToStartDaemon ''default'' DaemonStartTimeout) \<and>
   slept_ms (startSession dead_env example_manager [] ''default'' True) = 60000"
proof -
  have ne: "\<not> sessionExists example_manager [] ''default''"
    by (simp add: sessionExists_def existsSync_def)
  have sp: "spawned (startSession starting_env example_manager [] ''default'' True) \<noteq> []"
    using ne by (simp add: startSession_def spawn_and_poll_spawned starting_env_def)
  have sp': "spawned (startSession dead_env example_manager [] ''default'' True) \<noteq> []"
    using ne by (simp add: startSession_def spawn_and_poll_spawned dead_env_def)
  have g0: "getSession example_manager (observed starting_env 0) ''default'' = None"
    by (simp add: getSession_None_iff starting_env_def)
  have g1: "getSession example_manager (observed starting_env 1) ''default'' =
              Some created_session"
    by (simp add: getSession_Some_iff starting_env_def)
  have g2: "getSession example_manager (observed starting_env 2) ''default'' =
              Some example_session"
    by (simp add: starting_env_def example_getSession)
  have r0: "\<not> ready starting_env example_manager ''default'' 0"
    by (simp add: ready_def g0)
  have r1: "\<not> ready starting_env example_manager ''default'' 1"
    unfolding ready_def g1
    by (simp add: created_session_def truthy_port_def)
  have r2: "ready starting_env example_manager ''default'' 2"
    by (simp add: ready_def g2 example_session_def truthy_port_def)
  have nr: "\<forall>j<2. \<not> ready starting_env example_manager ''default'' j"
  proof (intro allI impI)
    fix j :: nat
    assume "j < 2"
    then have "j = 0 \<or> j = 1" by arith
    with r0 r1 show "\<not> ready starting_env example_manager ''default'' j" by auto
  qed
  have gd: "getSession example_manager [] ''default'' = None"
    by (simp add: getSession_None_iff)
  have dead: "\<forall>k<60. \<not> ready dead_env example_manager ''default'' k"
    by (simp add: ready_def dead_env_def gd)
  have a: "\<exists>s. getSession example_manager (observed starting_env 2) ''default'' = Some s \<and>
             truthy_port (controlPort s) \<and>
             outcome (startSession starting_env example_manager [] ''default'' True) =
               Inr \<lparr>ok_sessionName = ''default'', ok_pid = pid s,
                    ok_controlPort = the (controlPort s)\<rparr>"
    and b: "slept_ms (startSession starting_env example_manager [] ''default'' True) =
              1000 * (2 + 1)"
    using startSession_poll_bounded [OF sp, of 2] r2 nr by simp_all
  have c: "outcome (startSession dead_env example_manager [] ''default'' True) =
             Inl (FailedToStartDaemon ''default'' DaemonStartTimeout) \<and>
           slept_ms (startSession dead_env example_manager [] ''default'' True) = 60 * 1000"
    using startSession_poll_bounded [OF sp', of 0] dead by blast
  from a g2 have "outcome (startSession starting_env example_manager [] ''default'' True) =
      Inr \<lparr>ok_sessionName = ''default'', ok_pid = 4242, ok_controlPort = 9320\<rparr>"
    by (simp add: example_session_def)
  with b c sp sp' show ?thesis by simp
qed

section \<open>Facts about the startup of the daemon\<close>

lemma start_failure_untouched:
  "isl (fst (start m env (d0, f0))) \<Longrightarrow> w \<in> set (snd (start m env (d0, f0))) \<Longrightarrow> snd w = f0"
  by (auto simp: start_def Let_def split: option.splits if_splits)

lemma getSession_createSession:
  "getSession m (snd (createSession m f n endpoint p hl t1 t2)) n =
     Some \<lparr>name = n, wsEndpoint = endpoint, pid = p, headless = hl, created = t1,
           lastActivity = t2, currentUrl = None, controlPort = None, debugPort = None\<rparr>"
  by (simp add: getSession_Some_iff createSession_def writeFileSync_def update_conv' Let_def)

lemma getSession_updateSession:
  "getSession m f n = Some s \<Longrightarrow>
     getSession m (snd (updateSession m f n u)) n = Some (spread s u)"
proof -
  assume g: "getSession m f n = Some s"
  have "getSession m (writeFileSync f (getSessionFile m n) (SessionJson (spread s u))) n =
          Some (spread s u)"
    by (simp add: getSession_Some_iff writeFileSync_def update_conv')
  with g show ?thesis
    by (simp add: updateSession_def)
qed

text \<open>
  C1, as the claim states it, fails. Take a startup in which every step succeeds, in an
  empty sessions directory. In the fifth state of its history (browser connected, listener
  and timer running) there is no record yet; in the sixth, after the write of
  \<open>createSession\<close>, the record is there and has no \<open>controlPort\<close>; only the seventh,
  after the write of \<open>updateSession\<close>, has the control port 9320.
\<close>

theorem start_record_first_visible_without_port_counterexample:
  "getSession example_manager
     (snd (snd (start example_manager ok_start_env (example_daemon, [])) ! 4)) ''default'' = None \<and>
   map_option controlPort (getSession example_manager
     (snd (snd (start example_manager ok_start_env (example_daemon, [])) ! 5)) ''default'') =
     Some None \<and>
   map_option controlPort (getSession example_manager
     (snd (snd (start example_manager ok_start_env (example_daemon, [])) ! 6)) ''default'') =
     Some (Some 9320)"
  by (simp add: start_def ok_start_env_def Let_def example_daemon_def SessionDaemon_def
      getSession_createSession getSession_updateSession [OF getSession_createSession]
      spread_def no_updates_def)
     (simp add: getSession_def existsSync_def)

text \<open>
  C1, amended. \<open>start\<close> writes the file of the session only after the browser is
  connected and the control listener is listening, and it writes it twice: first
  \<open>createSession\<close> writes the record without \<open>controlPort\<close> and \<open>debugPort\<close>, then
  \<open>updateSession\<close> adds the control port found at the beginning and the debugging
  port. In every state before the first write the file system is the one \<open>start\<close>
  began with, and when \<open>start\<close> fails the file system is that one in every state.
\<close>

theorem start_writes_record_last_in_two_writes:
  "(isl (fst (start m env (d0, f0))) \<longrightarrow>
      (\<forall>w \<in> set (snd (start m env (d0, f0))). snd w = f0)) \<and>
   (\<forall>r. fst (start m env (d0, f0)) = Inr r \<longrightarrow>
      (\<exists>pre d f1 f2 s.
         snd (start m env (d0, f0)) = pre @ [(d, f1), (d, f2)] \<and>
         (\<forall>w \<in> set pre. snd w = f0) \<and>
         browser d = Some (res_wsEndpoint r) \<and> controlServer d \<and>
         daemon_controlPort d = Some (res_controlPort r) \<and>
         findAvailablePort_result env = Some (res_controlPort r) \<and>
         getSession m f1 (sessionName d0) = Some s \<and>
         controlPort s = None \<and> debugPort s = None \<and>
         getSession m f2 (sessionName d0) =
           Some (s\<lparr>controlPort := Some (res_controlPort r),
                   debugPort := Some (res_debugPort r)\<rparr>)))"
proof (intro conjI impI allI)
  assume "isl (fst (start m env (d0, f0)))"
  then show "\<forall>w \<in> set (snd (start m env (d0, f0))). snd w = f0"
    using start_failure_untouched [of m env d0 f0] by blast
next
  fix r
  assume assms: "fst (start m env (d0, f0)) = Inr r"
  show "\<exists>pre d f1 f2 s.
           snd (start m env (d0, f0)) = pre @ [(d, f1), (d, f2)] \<and>
           (\<forall>w \<in> set pre. snd w = f0) \<and>
           browser d = Some (res_wsEndpoint r) \<and> controlServer d \<and>
           daemon_controlPort d = Some (res_controlPort r) \<and>
           findAvailablePort_result env = Some (res_controlPort r) \<and>
           getSession m f1 (sessionName d0) = Some s \<and>
           controlPort s = None \<and> debugPort s = None \<and>
           getSession m f2 (sessionName d0) =
             Some (s\<lparr>controlPort := Some (res_controlPort r),
                     debugPort := Some (res_debugPort r)\<rparr>)"
  proof -
  from assms obtain port endpoint where
    port: "findAvailablePort_result env = Some port" and
    ep: "webSocketDebuggerUrl env = Some endpoint" and
    oks: "executablePath_ok env" "spawn_ok env" "puppeteer_connect_ok env" "listen_ok env"
    by (auto simp: start_def Let_def split: option.splits if_splits)
  define d4 where "d4 = d0\<lparr>daemon_controlPort := Some port, browser := Some endpoint,
                           controlServer := True, monitorTimer := True\<rparr>"
  define f1 where "f1 = snd (createSession m f0 (sessionName d0) endpoint (process_pid env)
                                (options_headless d0) (clock_created env) (clock_activity env))"
  define u where "u = no_updates\<lparr>upd_controlPort := Some port,
                                  upd_debugPort := Some (9220 + random100 env)\<rparr>"
  define f2 where "f2 = snd (updateSession m f1 (sessionName d0) u)"
  define s where "s = \<lparr>name = sessionName d0, wsEndpoint = endpoint, pid = process_pid env,
       headless = options_headless d0, created = clock_created env,
       lastActivity = clock_activity env, currentUrl = None, controlPort = None,
       debugPort = None\<rparr>"
  have st: "start m env (d0, f0) =
      (Inr \<lparr>res_controlPort = port, res_debugPort = 9220 + random100 env,
            res_wsEndpoint = endpoint\<rparr>,
       [(d0, f0), (d0\<lparr>daemon_controlPort := Some port\<rparr>, f0),
        (d0\<lparr>daemon_controlPort := Some port, browser := Some endpoint\<rparr>, f0),
        (d0\<lparr>daemon_controlPort := Some port, browser := Some endpoint,
            controlServer := True\<rparr>, f0),
        (d4, f0)] @ [(d4, f1), (d4, f2)])"
    using port ep oks by (simp add: start_def Let_def d4_def f1_def f2_def u_def)
  with assms have r: "r = \<lparr>res_controlPort = port, res_debugPort = 9220 + random100 env,
            res_wsEndpoint = endpoint\<rparr>" by simp
  have g1: "getSession m f1 (sessionName d0) = Some s"
    unfolding f1_def s_def by (rule getSession_createSession)
  have g2: "getSession m f2 (sessionName d0) = Some (spread s u)"
    unfolding f2_def using g1 by (rule getSession_updateSession)
  have sp: "spread s u = s\<lparr>controlPort := Some port, debugPort := Some (9220 + random100 env)\<rparr>"
    by (simp add: spread_def u_def no_updates_def s_def)
  show ?thesis
    apply (rule exI [of _ "[(d0, f0), (d0\<lparr>daemon_controlPort := Some port\<rparr>, f0),
        (d0\<lparr>daemon_controlPort := Some port, browser := Some endpoint\<rparr>, f0),
        (d0\<lparr>daemon_controlPort := Some port, browser := Some endpoint,
            controlServer := True\<rparr>, f0),
        (d4, f0)]"])
    apply (rule exI [of _ d4], rule exI [of _ f1], rule exI [of _ f2], rule exI [of _ s])
    using st g1 g2 sp port
    apply (simp add: r d4_def s_def)
    done
qed
qed

theorem start_writes_record_last_in_two_writes_witness:
  "isl (fst (start example_manager (ok_start_env\<lparr>listen_ok := False\<rparr>) (example_daemon, []))) \<and>
   set (map snd (snd (start example_manager (ok_start_env\<lparr>listen_ok := False\<rparr>)
                       (example_daemon, [])))) \<subseteq> {[]} \<and>
   fst (start example_manager ok_start_env (example_daemon, [])) =
     Inr \<lparr>res_controlPort = 9320, res_debugPort = 9222,
          res_wsEndpoint = ''ws://127.0.0.1:9222/devtools/browser/b1''\<rparr> \<and>
   (\<exists>pre d f1 f2 s.
      snd (start example_manager ok_start_env (example_daemon, [])) = pre @ [(d, f1), (d, f2)] \<and>
      set (map snd pre) \<subseteq> {[]} \<and>
      browser d = Some ''ws://127.0.0.1:9222/devtools/browser/b1'' \<and> controlServer d \<and>
      getSession example_manager f1 ''default'' = Some s \<and> controlPort s = None \<and>
      getSession example_manager f2 ''default'' =
        Some (s\<lparr>controlPort := Some 9320, debugPort := Some 9222\<rparr>))"
proof -
  have a: "isl (fst (start example_manager (ok_start_env\<lparr>listen_ok := False\<rparr>)
                      (example_daemon, [])))"
    by (simp add: start_def ok_start_env_def Let_def)
  have b: "fst (start example_manager ok_start_env (example_daemon, [])) =
     Inr \<lparr>res_controlPort = 9320, res_debugPort = 9222,
          res_wsEndpoint = ''ws://127.0.0.1:9222/devtools/browser/b1''\<rparr>"
    by (simp add: start_def ok_start_env_def Let_def)
  have n: "sessionName example_daemon = ''default''"
    by (simp add: example_daemon_def SessionDaemon_def)
  from start_writes_record_last_in_two_writes
         [of example_manager "ok_start_env\<lparr>listen_ok := False\<rparr>" example_daemon "[]"] a
  have "\<forall>w \<in> set (snd (start example_manager (ok_start_env\<lparr>listen_ok := False\<rparr>)
                       (example_daemon, []))). snd w = []"
    by blast
  then have c: "set (map snd (snd (start example_manager (ok_start_env\<lparr>listen_ok := False\<rparr>)
                       (example_daemon, [])))) \<subseteq> {[]}"
    by auto
  from start_writes_record_last_in_two_writes
         [of example_manager ok_start_env example_daemon "[]"] b
  obtain pre d f1 f2 s where
    "snd (start example_manager ok_start_env (example_daemon, [])) = pre @ [(d, f1), (d, f2)]"
    and p: "\<forall>w \<in> set pre. snd w = []"
    and "browser d = Some ''ws://127.0.0.1:9222/devtools/browser/b1''" "controlServer d"
    "getSession example_manager f1 ''default'' = Some s" "controlPort s = None"
    "getSession example_manager f2 ''default'' =
        Some (s\<lparr>controlPort := Some 9320, debugPort := Some 9222\<rparr>)"
    unfolding n by force
  moreover from p have "set (map snd pre) \<subseteq> {[]}"
    by auto
  ultimately show ?thesis using a b c by blast
qed

section \<open>Facts about session resolution\<close>

text \<open>
  C3. The record of \<open>default\<close> exists with control port 9320, the daemon is gone and the
  connection to the port fails. \<open>connectToSession\<close> then throws the error of the socket,
  not the error "is no longer active", and the file of the session is still there.
\<close>

theorem connectToSession_ping_failure_keeps_record:
  "connectToSession dead_env example_manager (new_client, example_fs) ''default'' =
     (Inl SocketError, (new_client, example_fs))"
  by (simp add: connectToSession_def pingDaemon_def example_getSession dead_env_def
      example_session_def truthy_port_def)

end
